theory Spec2Isabelle
  imports Complex_Main
begin

section \<open>Constants and drawing primitives of fireworks.py\<close>

text \<open>
  Python floats are modelled as \<^typ>\<open>real\<close> (exact arithmetic, no rounding), Python
  ints as \<^typ>\<open>int\<close>. A \<^verbatim>\<open>pygame.draw.circle\<close> call is modelled by the value of its
  arguments, and a draw method returns the list of the calls it makes, in order.
\<close>

definition WIDTH :: int where
  "WIDTH = 800"

definition HEIGHT :: int where
  "HEIGHT = 600"

type_synonym rgb = "int \<times> int \<times> int"

definition BLACK :: rgb where
  "BLACK = (0, 0, 0)"

definition COLORS :: "rgb list" where
  "COLORS = [(255, 0, 0), (255, 165, 0), (255, 255, 0), (0, 255, 0),
             (0, 0, 255), (75, 0, 130), (238, 130, 238), (255, 192, 203)]"

subsection \<open>The random module\<close>

text \<open>
  The program is deterministic but for its calls of Python's \<^verbatim>\<open>random\<close> module. Each
  call is given, as an extra argument, the number \<open>u\<close> that the generator's
  \<^verbatim>\<open>random()\<close> yields for it: a float with \<open>0 \<le> u < 1\<close>. The library functions are
  modelled by what the standard library computes from \<open>u\<close>:
  \<^verbatim>\<open>uniform(a, b)\<close> is \<^verbatim>\<open>a + (b - a) * random()\<close>, \<^verbatim>\<open>randint(a, b)\<close> is \<open>a\<close> plus an
  integer below \<open>b - a + 1\<close>, and \<^verbatim>\<open>choice(seq)\<close> is the element at an index below
  \<^verbatim>\<open>len(seq)\<close>, the integer being \<open>u\<close> scaled and truncated. \<^verbatim>\<open>choice\<close> raises on an
  empty sequence; the program calls it on \<^verbatim>\<open>COLORS\<close> only.
\<close>

definition random_ok :: "real \<Rightarrow> bool" where
  "random_ok u \<longleftrightarrow> 0 \<le> u \<and> u < 1"

definition uniform :: "real \<Rightarrow> real \<Rightarrow> real \<Rightarrow> real" where
  "uniform a b u = a + (b - a) * u"

definition randint :: "int \<Rightarrow> int \<Rightarrow> real \<Rightarrow> int" where
  "randint a b u = a + \<lfloor>u * real_of_int (b - a + 1)\<rfloor>"

definition choice :: "'a list \<Rightarrow> real \<Rightarrow> 'a" where
  "choice seq u = seq ! nat \<lfloor>u * real (length seq)\<rfloor>"

text \<open>Python's \<^verbatim>\<open>int(f)\<close> on a float: truncation towards zero.\<close>

definition py_int :: "real \<Rightarrow> int" where
  "py_int r = (if 0 \<le> r then \<lfloor>r\<rfloor> else \<lceil>r\<rceil>)"

text \<open>
  The colour argument of a circle call: the plain triple \<^verbatim>\<open>self.color\<close>, or the
  4-tuple \<^verbatim>\<open>(*self.color, alpha)\<close>.
\<close>

datatype color_arg = RGB rgb | RGBA rgb int

datatype draw_call = Circle color_arg "int \<times> int" int

fun call_alpha :: "draw_call \<Rightarrow> int option" where
  "call_alpha (Circle (RGB c) pos r) = None"
| "call_alpha (Circle (RGBA c a) pos r) = Some a"

text \<open>The alpha of a call, when it has one, lies in 0..255.\<close>

fun alpha_in_range :: "draw_call \<Rightarrow> bool" where
  "alpha_in_range (Circle (RGB c) pos r) = True"
| "alpha_in_range (Circle (RGBA c a) pos r) = (0 \<le> a \<and> a \<le> 255)"

section \<open>Particle\<close>

record Particle =
  p_x :: real
  p_y :: real
  p_color :: rgb
  p_size :: int
  p_vx :: real
  p_vy :: real
  p_gravity :: real
  p_life :: int
  p_decay :: real
  p_trail :: "(real \<times> real) list"

text \<open>
  \<^verbatim>\<open>Particle.__init__(x, y, color, speed, angle, size)\<close>; \<open>decay_draw\<close> is the random
  number behind \<^verbatim>\<open>random.uniform(0.8, 0.99)\<close>.
\<close>

definition Particle_init ::
  "real \<Rightarrow> real \<Rightarrow> rgb \<Rightarrow> real \<Rightarrow> real \<Rightarrow> int \<Rightarrow> real \<Rightarrow> Particle" where
  "Particle_init x y color speed angle sz decay_draw =
     \<lparr> p_x = x, p_y = y, p_color = color, p_size = sz,
       p_vx = cos angle * speed, p_vy = sin angle * speed,
       p_gravity = 0.1, p_life = 100, p_decay = uniform 0.8 0.99 decay_draw,
       p_trail = [] \<rparr>"

text \<open>\<^verbatim>\<open>trail.append(pos); if len(trail) > cap: trail.pop(0)\<close>\<close>

definition append_capped :: "nat \<Rightarrow> 'a list \<Rightarrow> 'a \<Rightarrow> 'a list" where
  "append_capped cap trail pos =
     (let t = trail @ [pos] in if length t > cap then tl t else t)"

definition Particle_update :: "Particle \<Rightarrow> Particle" where
  "Particle_update p =
     (let trail' = append_capped 10 (p_trail p) (p_x p, p_y p);
          vx1 = p_vx p * p_decay p;
          vy1 = p_vy p * p_decay p;
          vy2 = vy1 + p_gravity p
      in p\<lparr> p_trail := trail', p_vx := vx1, p_vy := vy2,
             p_x := p_x p + vx1, p_y := p_y p + vy2, p_life := p_life p - 1 \<rparr>)"

definition Particle_draw :: "Particle \<Rightarrow> draw_call list" where
  "Particle_draw p =
     (if length (p_trail p) > 1 then
        map (\<lambda>(i, pos).
               Circle (RGBA (p_color p)
                         (py_int (255 * (real i / real (length (p_trail p)))
                                      * (real_of_int (p_life p) / 100))))
                      (py_int (fst pos), py_int (snd pos))
                      (max 1 (p_size p div 2)))
            (enumerate 0 (p_trail p))
      else [])
     @ [Circle (RGBA (p_color p) (max 0 (min 255 (p_life p * 2))))
               (py_int (p_x p), py_int (p_y p)) (p_size p)]"

definition Particle_is_alive :: "Particle \<Rightarrow> bool" where
  "Particle_is_alive p \<longleftrightarrow> p_life p > 0 \<and> p_y p < real_of_int (HEIGHT + 50)"

section \<open>Firework\<close>

record Firework =
  f_x :: real
  f_y :: real
  f_target_y :: real
  f_color :: rgb
  f_vx :: real
  f_vy :: real
  f_exploded :: bool
  f_particles :: "Particle list"
  f_trail :: "(real \<times> real) list"

text \<open>
  \<^verbatim>\<open>Firework.__init__(x, target_y, color)\<close>; \<open>speed_draw\<close> is the random number
  behind \<^verbatim>\<open>random.uniform(15, 20)\<close>.
\<close>

definition Firework_init :: "real \<Rightarrow> real \<Rightarrow> rgb \<Rightarrow> real \<Rightarrow> Firework" where
  "Firework_init x target_y color speed_draw =
     \<lparr> f_x = x, f_y = real_of_int HEIGHT, f_target_y = target_y, f_color = color,
       f_vx = 0, f_vy = - uniform 15 20 speed_draw, f_exploded = False, f_particles = [],
       f_trail = [] \<rparr>"

text \<open>
  The random numbers of one iteration of the loop of \<^verbatim>\<open>explode\<close>, in the order of
  the calls: for the speed, the size and the decay of the primary particle, for
  \<^verbatim>\<open>random.random()\<close>, and, read only when that one is below 0.3, for the angle, the
  speed and the decay of the scatter particle.
\<close>

record burst_draw =
  b_speed :: real
  b_size :: real
  b_decay :: real
  b_coin :: real
  b_random_angle :: real
  b_random_speed :: real
  b_random_decay :: real

text \<open>
  The random numbers of one call of \<^verbatim>\<open>explode\<close>: for \<^verbatim>\<open>random.randint(30, 60)\<close>,
  then those of iteration \<open>i\<close>.
\<close>

record explode_draws =
  e_particle_count :: real
  e_iter :: "nat \<Rightarrow> burst_draw"

text \<open>The particles appended by iteration \<open>i\<close> of the loop of \<^verbatim>\<open>explode\<close>.\<close>

definition explode_iter :: "Firework \<Rightarrow> int \<Rightarrow> burst_draw \<Rightarrow> nat \<Rightarrow> Particle list" where
  "explode_iter fw particle_count d i =
     (let angle = (2 * pi * real i) / real_of_int particle_count;
          speed = uniform 2 8 (b_speed d);
          sz = randint 2 4 (b_size d);
          particle = Particle_init (f_x fw) (f_y fw) (f_color fw) speed angle sz (b_decay d)
      in if b_coin d < 0.3 then
           (let random_angle = uniform 0 (2 * pi) (b_random_angle d);
                random_speed = uniform 1 5 (b_random_speed d)
            in [particle,
                Particle_init (f_x fw) (f_y fw) (f_color fw) random_speed random_angle
                  (sz div 2) (b_random_decay d)])
         else [particle])"

text \<open>\<^verbatim>\<open>for i in range(particle_count)\<close>, over the indices still to visit.\<close>

fun explode_loop ::
  "Firework \<Rightarrow> int \<Rightarrow> (nat \<Rightarrow> burst_draw) \<Rightarrow> nat list \<Rightarrow> Particle list \<Rightarrow> Particle list" where
  "explode_loop fw particle_count ds [] particles = particles"
| "explode_loop fw particle_count ds (i # rest) particles =
     explode_loop fw particle_count ds rest
       (particles @ explode_iter fw particle_count (ds i) i)"

definition explode :: "Firework \<Rightarrow> explode_draws \<Rightarrow> Firework" where
  "explode fw d =
     (let particle_count = randint 30 60 (e_particle_count d)
      in fw\<lparr> f_exploded := True,
             f_particles := explode_loop fw particle_count (e_iter d)
                              [0..<nat particle_count] (f_particles fw) \<rparr>)"

text \<open>
  \<^verbatim>\<open>for particle in self.particles[:]\<close>: each particle of the snapshot is updated and,
  when no longer alive, removed from the list. Particles are compared by identity, so
  \<^verbatim>\<open>remove\<close> takes out exactly the particle just updated.
\<close>

fun update_particles :: "Particle list \<Rightarrow> Particle list" where
  "update_particles [] = []"
| "update_particles (particle # rest) =
     (let particle' = Particle_update particle
      in if \<not> Particle_is_alive particle' then update_particles rest
         else particle' # update_particles rest)"

text \<open>
  \<^verbatim>\<open>Firework.update()\<close>; \<open>d\<close> holds the random numbers of \<^verbatim>\<open>explode\<close>, read if
  this call reaches it.
\<close>

definition Firework_update :: "Firework \<Rightarrow> explode_draws \<Rightarrow> Firework" where
  "Firework_update fw d =
     (if \<not> f_exploded fw then
        let trail' = append_capped 20 (f_trail fw) (f_x fw, f_y fw);
            vy' = f_vy fw + 0.3;
            y' = f_y fw + vy';
            fw' = fw\<lparr> f_trail := trail', f_vy := vy', f_y := y' \<rparr>
        in if vy' \<ge> 0 \<or> y' \<le> f_target_y fw' then explode fw' d else fw'
      else fw\<lparr> f_particles := update_particles (f_particles fw) \<rparr>)"

definition Firework_draw :: "Firework \<Rightarrow> draw_call list" where
  "Firework_draw fw =
     (if \<not> f_exploded fw then
        (if length (f_trail fw) > 1 then
           map (\<lambda>(i, pos).
                  Circle (RGBA (f_color fw)
                            (py_int (255 * (real i / real (length (f_trail fw))))))
                         (py_int (fst pos), py_int (snd pos)) 2)
               (enumerate 0 (f_trail fw))
         else [])
        @ [Circle (RGB (f_color fw)) (py_int (f_x fw), py_int (f_y fw)) 3]
      else concat (map Particle_draw (f_particles fw)))"

definition Firework_is_alive :: "Firework \<Rightarrow> bool" where
  "Firework_is_alive fw = (if \<not> f_exploded fw then True else length (f_particles fw) > 0)"

text \<open>
  The Firework after \<open>n\<close> calls of \<^verbatim>\<open>update()\<close>; call number \<open>k\<close> (from 0) is given
  the random numbers \<open>ds k\<close>.
\<close>

fun updates :: "nat \<Rightarrow> (nat \<Rightarrow> explode_draws) \<Rightarrow> Firework \<Rightarrow> Firework" where
  "updates 0 ds fw = fw"
| "updates (Suc n) ds fw = Firework_update (updates n ds fw) (ds n)"

section \<open>The main loop\<close>

text \<open>
  A pygame surface as the claims need it: its pixels and the per-surface alpha set by
  \<^verbatim>\<open>set_alpha\<close> (none on a new surface). \<^verbatim>\<open>fill\<close> overwrites every pixel. \<^verbatim>\<open>blit\<close>
  at (0, 0) of a surface of the same size copies the source where it has no alpha and
  otherwise blends each source pixel over the destination pixel; the blending formula is
  pygame's and is taken as the parameter \<open>blend\<close> (source pixel, alpha, destination
  pixel).
\<close>

record Surface =
  s_pixels :: "int \<times> int \<Rightarrow> rgb"
  s_alpha :: "int option"

definition Surface_new :: Surface where
  "Surface_new = \<lparr> s_pixels = (\<lambda>_. BLACK), s_alpha = None \<rparr>"

definition set_alpha :: "Surface \<Rightarrow> int \<Rightarrow> Surface" where
  "set_alpha s a = s\<lparr> s_alpha := Some a \<rparr>"

definition fill :: "Surface \<Rightarrow> rgb \<Rightarrow> Surface" where
  "fill s c = s\<lparr> s_pixels := (\<lambda>_. c) \<rparr>"

definition blit :: "(rgb \<Rightarrow> int \<Rightarrow> rgb \<Rightarrow> rgb) \<Rightarrow> Surface \<Rightarrow> Surface \<Rightarrow> Surface" where
  "blit blend dst src =
     dst\<lparr> s_pixels := (\<lambda>p. case s_alpha src of
                                None \<Rightarrow> s_pixels src p
                              | Some a \<Rightarrow> blend (s_pixels src p) a (s_pixels dst p)) \<rparr>"

text \<open>\<^verbatim>\<open>trail_surface = pygame.Surface((WIDTH, HEIGHT)); trail_surface.set_alpha(20)\<close>\<close>

definition trail_surface_init :: Surface where
  "trail_surface_init = set_alpha Surface_new 20"

text \<open>
  The three statements under the comment "clear the screen (with trail effect)" of
  \<^verbatim>\<open>main\<close>; the result is the screen and the trail surface after them.
\<close>

definition clear_screen ::
  "(rgb \<Rightarrow> int \<Rightarrow> rgb \<Rightarrow> rgb) \<Rightarrow> Surface \<Rightarrow> Surface \<Rightarrow> Surface \<times> Surface" where
  "clear_screen blend screen trail_surface =
     (let screen1 = fill screen BLACK;
          trail_surface1 = fill trail_surface BLACK;
          screen2 = blit blend screen1 trail_surface1
      in (screen2, trail_surface1))"

datatype event = QUIT | MOUSEBUTTONDOWN | OTHER

text \<open>
  What the handler of \<^verbatim>\<open>MOUSEBUTTONDOWN\<close> reads: the result of
  \<^verbatim>\<open>pygame.mouse.get_pos()\<close>, and the random numbers of \<^verbatim>\<open>random.choice(COLORS)\<close>
  and of the \<^verbatim>\<open>random.uniform(15, 20)\<close> of the Firework constructor.
\<close>

record click_draw =
  m_pos :: "int \<times> int"
  m_color :: real
  m_speed :: real

text \<open>The body of the event loop, on the pair of \<^verbatim>\<open>running\<close> and \<^verbatim>\<open>fireworks\<close>.\<close>

definition handle_event ::
  "bool \<times> Firework list \<Rightarrow> event \<Rightarrow> click_draw \<Rightarrow> bool \<times> Firework list" where
  "handle_event st ev c =
     (case st of (running, fireworks) \<Rightarrow>
        if ev = QUIT then (False, fireworks)
        else if ev = MOUSEBUTTONDOWN then
          (case m_pos c of (x, y) \<Rightarrow>
             let color = choice COLORS (m_color c)
             in (running,
                 fireworks @ [Firework_init (real_of_int x) (real_of_int y) color (m_speed c)]))
        else (running, fireworks))"




text \<open>
  The method calls of the loop over \<^verbatim>\<open>fireworks[:]\<close>, each with the index of the
  Firework in the snapshot.
\<close>

datatype call = is_Update: Update nat | is_Draw: Draw nat | is_Remove: Remove nat

text \<open>
  \<^verbatim>\<open>for firework in fireworks[:]\<close>: the Firework at index \<open>i\<close> of the snapshot is
  updated (with the random numbers \<open>ds i\<close>), drawn and, when no longer alive, removed
  (by identity, so exactly this one). The result is the list after the loop, the calls
  made in order, and the circles drawn on the screen in order.
\<close>

fun fireworks_loop ::
  "nat \<Rightarrow> (nat \<Rightarrow> explode_draws) \<Rightarrow> Firework list
     \<Rightarrow> Firework list \<times> call list \<times> draw_call list" where
  "fireworks_loop i ds [] = ([], [], [])"
| "fireworks_loop i ds (firework # rest) =
     (let firework' = Firework_update firework (ds i);
          circles = Firework_draw firework'
      in case fireworks_loop (Suc i) ds rest of (kept, calls, drawn) \<Rightarrow>
           if \<not> Firework_is_alive firework' then
             (kept, Update i # Draw i # Remove i # calls, circles @ drawn)
           else (firework' # kept, Update i # Draw i # calls, circles @ drawn))"

section \<open>Predicates and sample inputs used by the theorems\<close>

text \<open>Every random number read by \<^verbatim>\<open>explode\<close> is a result of \<^verbatim>\<open>random()\<close>.\<close>

definition burst_draw_ok :: "burst_draw \<Rightarrow> bool" where
  "burst_draw_ok b \<longleftrightarrow>
     random_ok (b_speed b) \<and> random_ok (b_size b) \<and> random_ok (b_decay b) \<and>
     random_ok (b_coin b) \<and> random_ok (b_random_angle b) \<and>
     random_ok (b_random_speed b) \<and> random_ok (b_random_decay b)"

definition explode_draws_ok :: "explode_draws \<Rightarrow> bool" where
  "explode_draws_ok d \<longleftrightarrow>
     random_ok (e_particle_count d) \<and>
     list_all (\<lambda>i. burst_draw_ok (e_iter d i))
       [0..<nat (randint 30 60 (e_particle_count d))]"

text \<open>
  The invariant of the particles a Firework owns: an owned Particle has a positive life
  of at most 100 and a trail of at most 10 positions; a Firework that has not exploded
  owns none.
\<close>

definition particle_ok :: "Particle \<Rightarrow> bool" where
  "particle_ok p \<longleftrightarrow> 0 < p_life p \<and> p_life p \<le> 100 \<and> length (p_trail p) \<le> 10"

definition firework_inv :: "Firework \<Rightarrow> bool" where
  "firework_inv fw \<longleftrightarrow>
     (if f_exploded fw then list_all particle_ok (f_particles fw) else f_particles fw = [])"

text \<open>
  A sequence of calls runs in three phases (every update, then every draw, then every
  removal) exactly when it is its own stable partition into the three kinds.
\<close>

definition phase_ordered :: "call list \<Rightarrow> bool" where
  "phase_ordered cs \<longleftrightarrow>
     cs = filter is_Update cs @ filter is_Draw cs @ filter is_Remove cs"

text \<open>Clamping of a coordinate to \<open>lo..hi\<close>.\<close>

definition clamp :: "real \<Rightarrow> real \<Rightarrow> real \<Rightarrow> real" where
  "clamp lo hi v = max lo (min hi v)"

text \<open>
  Sample inputs. The sample Firework is the one of the end-to-end scenario: launched at
  x = 400 for the target altitude 300 with vy = -17.
\<close>

definition example_burst :: burst_draw where
  "example_burst = \<lparr> b_speed = 1/2, b_size = 1/2, b_decay = 1/2, b_coin = 1/10,
                     b_random_angle = 0, b_random_speed = 1/2, b_random_decay = 1/2 \<rparr>"

definition example_draws :: explode_draws where
  "example_draws = \<lparr> e_particle_count = 0, e_iter = (\<lambda>_. example_burst) \<rparr>"

definition example_firework :: Firework where
  "example_firework = Firework_init 400 300 (255, 0, 0) (2/5)"

definition example_particle :: Particle where
  "example_particle = Particle_init 400 300 (255, 0, 0) 5 0 3 (1/2)"

text \<open>The Firework launched by a click at (400, 590).\<close>

definition bottom_firework :: Firework where
  "bottom_firework = Firework_init 400 590 (255, 0, 0) (2/5)"

text \<open>
  That Firework after 100 updates: it exploded in the first one, and its particles have
  one update of life left.
\<close>

definition dying_firework :: Firework where
  "dying_firework = updates 100 (\<lambda>_. example_draws) bottom_firework"

text \<open>A click reported at (1000, 700), outside the 800 x 600 viewport.\<close>

definition outside_click :: click_draw where
  "outside_click = \<lparr> m_pos = (1000, 700), m_color = 0, m_speed = 2/5 \<rparr>"

text \<open>A click at (400, 590), ten pixels above the bottom edge.\<close>

definition bottom_click :: click_draw where
  "bottom_click = \<lparr> m_pos = (400, 590), m_color = 0, m_speed = 2/5 \<rparr>"



text \<open>A screen that is black but for a red pixel at (400, 300), and a black screen.\<close>

definition red_dot_screen :: Surface where
  "red_dot_screen =
     \<lparr> s_pixels = (\<lambda>p. if p = (400, 300) then (255, 0, 0) else BLACK), s_alpha = None \<rparr>"

definition black_screen :: Surface where
  "black_screen = \<lparr> s_pixels = (\<lambda>p. BLACK), s_alpha = None \<rparr>"

section \<open>Auxiliary facts\<close>

subsection \<open>The random module\<close>

lemma random_ok_uniform:
  "random_ok u \<Longrightarrow> a \<le> b \<Longrightarrow> a \<le> uniform a b u \<and> uniform a b u \<le> b"
proof -
  assume u: "random_ok u" and ab: "a \<le> b"
  have "0 \<le> (b - a) * u" using u ab by (simp add: random_ok_def)
  moreover have "(b - a) * u \<le> (b - a) * 1"
    using u ab by (intro mult_left_mono) (simp_all add: random_ok_def)
  ultimately show ?thesis by (simp add: uniform_def)
qed

lemma random_ok_uniform_less:
  "random_ok u \<Longrightarrow> a < b \<Longrightarrow> uniform a b u < b"
proof -
  assume u: "random_ok u" and ab: "a < b"
  have "(b - a) * u < (b - a) * 1"
    using u ab by (intro mult_strict_left_mono) (simp_all add: random_ok_def)
  then show ?thesis by (simp add: uniform_def)
qed

lemma random_ok_randint:
  assumes "random_ok u" "a \<le> b"
  shows "a \<le> randint a b u \<and> randint a b u \<le> b"
proof -
  define n where "n = b - a + 1"
  have n: "0 < real_of_int n" using assms by (simp add: n_def)
  have "0 \<le> u * real_of_int n" using assms n by (simp add: random_ok_def)
  then have lo: "0 \<le> \<lfloor>u * real_of_int n\<rfloor>" by simp
  have "u * real_of_int n < 1 * real_of_int n"
    using assms n by (intro mult_strict_right_mono) (simp_all add: random_ok_def)
  then have "u * real_of_int n < real_of_int n" by simp
  then have "\<lfloor>u * real_of_int n\<rfloor> < n" by (simp only: floor_less_iff)
  with lo show ?thesis unfolding randint_def n_def by linarith
qed

lemma random_ok_choice:
  assumes "random_ok u" "seq \<noteq> []"
  shows "choice seq u \<in> set seq"
proof -
  have n: "0 < real (length seq)" using assms by simp
  have "0 \<le> u * real (length seq)" using assms by (simp add: random_ok_def)
  have "u * real (length seq) < 1 * real (length seq)"
    using assms n by (intro mult_strict_right_mono) (simp_all add: random_ok_def)
  then have "\<lfloor>u * real (length seq)\<rfloor> < int (length seq)" by (simp add: floor_less_iff)
  then have "nat \<lfloor>u * real (length seq)\<rfloor> < length seq" using n by linarith
  then show ?thesis by (simp add: choice_def)
qed

lemma explode_loop_eq:
  "explode_loop fw n ds idxs ps = ps @ concat (map (\<lambda>i. explode_iter fw n (ds i) i) idxs)"
  by (induction idxs arbitrary: ps) simp_all

subsection \<open>Trails and the ascent\<close>

lemma length_append_capped: "length trail \<le> cap \<Longrightarrow> length (append_capped cap trail pos) \<le> cap"
  by (simp add: append_capped_def Let_def)

lemma append_capped_eq:
  "0 < cap \<Longrightarrow> append_capped cap trail pos = (if length trail < cap then trail else tl trail) @ [pos]"
  by (cases trail) (auto simp: append_capped_def Let_def)

lemma explode_fields:
  "f_x (explode fw d) = f_x fw" "f_y (explode fw d) = f_y fw" "f_vy (explode fw d) = f_vy fw"
  "f_vx (explode fw d) = f_vx fw"
  "f_trail (explode fw d) = f_trail fw" "f_target_y (explode fw d) = f_target_y fw"
  "f_color (explode fw d) = f_color fw" "f_exploded (explode fw d)"
  by (simp_all add: explode_def Let_def)

lemma Firework_update_ascending:
  assumes "\<not> f_exploded fw"
  shows "f_trail (Firework_update fw d) = append_capped 20 (f_trail fw) (f_x fw, f_y fw)"
    and "f_vy (Firework_update fw d) = f_vy fw + 0.3"
    and "f_y (Firework_update fw d) = f_y fw + (f_vy fw + 0.3)"
    and "f_x (Firework_update fw d) = f_x fw"
    and "f_target_y (Firework_update fw d) = f_target_y fw"
    and "f_exploded (Firework_update fw d) \<longleftrightarrow>
           f_vy fw + 0.3 \<ge> 0 \<or> f_y fw + (f_vy fw + 0.3) \<le> f_target_y fw"
  using assms by (simp_all add: Firework_update_def Let_def explode_fields)

lemma Firework_update_exploded:
  assumes "f_exploded fw"
  shows "Firework_update fw d = fw\<lparr> f_particles := update_particles (f_particles fw) \<rparr>"
  using assms by (simp add: Firework_update_def)

lemma updates_exploded_mono:
  "f_exploded (updates n ds fw) \<Longrightarrow> f_exploded (updates (n + m) ds fw)"
  by (induction m) (simp_all add: Firework_update_exploded)

lemma updates_ascending_prefix:
  assumes "\<not> f_exploded (updates n ds fw)" "k \<le> n"
  shows "\<not> f_exploded (updates k ds fw)"
proof
  assume "f_exploded (updates k ds fw)"
  then have "f_exploded (updates (k + (n - k)) ds fw)" by (rule updates_exploded_mono)
  with assms show False by simp
qed

lemma updates_ascending_vy:
  "\<not> f_exploded (updates n ds fw) \<Longrightarrow>
     f_vy (updates n ds fw) = f_vy fw + 0.3 * real n \<and> (0 < n \<longrightarrow> f_vy (updates n ds fw) < 0)"
proof (induction n)
  case 0
  then show ?case by simp
next
  case (Suc n)
  have asc: "\<not> f_exploded (updates n ds fw)"
    using Suc.prems updates_ascending_prefix[of "Suc n" ds fw n] by simp
  from Suc.IH[OF asc] have vy: "f_vy (updates n ds fw) = f_vy fw + 0.3 * real n" by simp
  have "f_vy (updates (Suc n) ds fw) = f_vy (updates n ds fw) + 0.3"
    using asc by (simp add: Firework_update_ascending)
  moreover have "\<not> (f_vy (updates n ds fw) + 0.3 \<ge> 0)"
    using Suc.prems asc by (simp add: Firework_update_ascending)
  ultimately show ?case using vy by (simp add: algebra_simps)
qed

lemma updates_explodes: "\<exists>n. f_exploded (updates n ds fw)"
proof (rule ccontr)
  assume no: "\<not> (\<exists>n. f_exploded (updates n ds fw))"
  define N where "N = Suc (nat \<lceil>- f_vy fw / 0.3\<rceil>)"
  have "\<not> f_exploded (updates N ds fw)" using no by blast
  from updates_ascending_vy[OF this]
  have neg: "f_vy fw + 0.3 * real N < 0" by (simp add: N_def)
  have "- f_vy fw / 0.3 \<le> real_of_int \<lceil>- f_vy fw / 0.3\<rceil>" by (rule le_of_int_ceiling)
  also have "\<dots> \<le> real (nat \<lceil>- f_vy fw / 0.3\<rceil>)" by simp
  also have "\<dots> < real N" by (simp add: N_def)
  finally have "- f_vy fw < 0.3 * real N" by (simp add: field_simps)
  with neg show False by simp
qed

lemma exactly_one_transition:
  assumes "\<not> f_exploded fw"
  shows "\<exists>!n. \<not> f_exploded (updates n ds fw) \<and> f_exploded (updates (Suc n) ds fw)"
proof -
  define m where "m = (LEAST n. f_exploded (updates n ds fw))"
  from updates_explodes obtain n0 where "f_exploded (updates n0 ds fw)" by blast
  then have m: "f_exploded (updates m ds fw)" unfolding m_def by (rule LeastI)
  have least: "\<And>k. k < m \<Longrightarrow> \<not> f_exploded (updates k ds fw)"
    unfolding m_def by (rule not_less_Least)
  from assms m have "m \<noteq> 0" by (cases m) auto
  then obtain j where j: "m = Suc j" by (cases m) auto
  have ex: "\<not> f_exploded (updates j ds fw) \<and> f_exploded (updates (Suc j) ds fw)"
    using m least[of j] j by simp
  have uniq: "n = j" if n: "\<not> f_exploded (updates n ds fw) \<and> f_exploded (updates (Suc n) ds fw)" for n
  proof (rule ccontr)
    assume "n \<noteq> j"
    then consider "n < j" | "j < n" by linarith
    then show False
    proof cases
      case 1
      then have "Suc n < m" using j by simp
      from least[OF this] n show False by simp
    next
      case 2
      then have "Suc j \<le> n" by simp
      from updates_ascending_prefix[OF conjunct1[OF n] this] ex show False by simp
    qed
  qed
  from ex uniq show ?thesis by blast
qed

subsection \<open>Particles\<close>

lemma Particle_updates_inv:
  "p = (Particle_update ^^ k) (Particle_init x y color speed angle sz decay_draw) \<Longrightarrow>
   p_gravity p = 0.1 \<and> p_life p = 100 - int k \<and> length (p_trail p) \<le> 10"
proof (induction k arbitrary: p)
  case 0
  then show ?case by (simp add: Particle_init_def)
next
  case (Suc k)
  then show ?case
    by (simp add: Particle_update_def Let_def length_append_capped)
qed

subsection \<open>Particles of a Firework\<close>

lemma update_particles_eq:
  "update_particles ps = filter Particle_is_alive (map Particle_update ps)"
  by (induction ps) (simp_all add: Let_def)

lemma particle_ok_update:
  assumes "particle_ok p" "Particle_is_alive (Particle_update p)"
  shows "particle_ok (Particle_update p)"
proof -
  have "0 < p_life (Particle_update p)" using assms(2) by (simp add: Particle_is_alive_def)
  moreover have "p_life (Particle_update p) = p_life p - 1"
    by (simp add: Particle_update_def Let_def)
  moreover have "length (p_trail (Particle_update p)) \<le> 10"
    using assms(1) by (simp add: Particle_update_def Let_def particle_ok_def length_append_capped)
  ultimately show ?thesis using assms(1) by (simp add: particle_ok_def)
qed

lemma particle_ok_update_particles:
  "list_all particle_ok ps \<Longrightarrow> list_all particle_ok (update_particles ps)"
  by (induction ps) (simp_all add: Let_def particle_ok_update)

lemma particle_ok_init: "particle_ok (Particle_init x y c speed angle sz u)"
  by (simp add: particle_ok_def Particle_init_def)

lemma particle_ok_explode_iter: "list_all particle_ok (explode_iter fw n b i)"
  by (simp add: explode_iter_def Let_def particle_ok_init)

lemma particle_ok_explode:
  assumes "list_all particle_ok (f_particles fw)"
  shows "list_all particle_ok (f_particles (explode fw d))"
proof -
  have "list_all particle_ok (concat (map (\<lambda>i. explode_iter fw n (ds i) i) idxs))" for n ds idxs
    by (induction idxs) (simp_all add: particle_ok_explode_iter)
  then show ?thesis using assms by (simp add: explode_def Let_def explode_loop_eq)
qed

lemma Firework_update_still_ascending:
  assumes "\<not> f_exploded (Firework_update fw d)"
  shows "\<not> f_exploded fw \<and> f_particles (Firework_update fw d) = f_particles fw"
proof -
  have asc: "\<not> f_exploded fw"
    using assms by (auto simp: Firework_update_exploded)
  then show ?thesis
    using assms by (auto simp: Firework_update_def Let_def explode_fields)
qed

lemma firework_inv_init: "firework_inv (Firework_init x target_y color u)"
  by (simp add: firework_inv_def Firework_init_def)

lemma firework_inv_update:
  assumes "firework_inv fw"
  shows "firework_inv (Firework_update fw d)"
proof (cases "f_exploded fw")
  case True
  then show ?thesis
    using assms by (simp add: firework_inv_def Firework_update_exploded particle_ok_update_particles)
next
  case asc: False
  show ?thesis
  proof (cases "f_exploded (Firework_update fw d)")
    case False
    then show ?thesis
      using assms asc Firework_update_still_ascending[OF False] by (simp add: firework_inv_def)
  next
    case True
    let ?fw' = "fw\<lparr> f_trail := append_capped 20 (f_trail fw) (f_x fw, f_y fw),
                    f_vy := f_vy fw + 0.3, f_y := f_y fw + (f_vy fw + 0.3) \<rparr>"
    from asc True have "f_vy fw + 0.3 \<ge> 0 \<or> f_y fw + (f_vy fw + 0.3) \<le> f_target_y fw"
      by (simp add: Firework_update_ascending)
    then have "Firework_update fw d = explode ?fw' d"
      using asc by (auto simp: Firework_update_def Let_def)
    moreover have "list_all particle_ok (f_particles ?fw')"
      using assms asc by (simp add: firework_inv_def)
    ultimately show ?thesis
      using True particle_ok_explode[of ?fw' d] by (simp add: firework_inv_def)
  qed
qed

lemma firework_inv_updates: "firework_inv (updates n ds (Firework_init x target_y color u))"
  by (induction n) (simp_all add: firework_inv_init firework_inv_update)

lemma updates_exploded_frozen:
  assumes "f_exploded fw"
  shows "f_exploded (updates m ds fw) \<and> f_x (updates m ds fw) = f_x fw
       \<and> f_y (updates m ds fw) = f_y fw \<and> f_vy (updates m ds fw) = f_vy fw
       \<and> f_trail (updates m ds fw) = f_trail fw"
  using assms by (induction m) (simp_all add: Firework_update_exploded)

subsection \<open>Alpha values\<close>

lemma py_int_range:
  assumes "0 \<le> r" "r \<le> 255"
  shows "0 \<le> py_int r \<and> py_int r \<le> 255"
proof -
  have "py_int r = \<lfloor>r\<rfloor>" using assms by (simp add: py_int_def)
  moreover have "0 \<le> \<lfloor>r\<rfloor>" using assms by simp
  moreover have "\<lfloor>r\<rfloor> \<le> 255" using assms by (simp add: floor_le_iff)
  ultimately show ?thesis by simp
qed

lemma trail_fraction:
  assumes "i < n"
  shows "0 \<le> 255 * (real i / real n) \<and> 255 * (real i / real n) \<le> 255"
proof -
  have "real i / real n \<le> 1" using assms by (simp add: divide_le_eq_1)
  moreover have "0 \<le> real i / real n" by simp
  ultimately show ?thesis by simp
qed

lemma trail_alpha_range:
  assumes "i < n" "0 < life" "life \<le> 100"
  shows "0 \<le> py_int (255 * (real i / real n) * (real_of_int life / 100))
       \<and> py_int (255 * (real i / real n) * (real_of_int life / 100)) \<le> 255"
proof (rule py_int_range)
  have f: "0 \<le> 255 * (real i / real n)" "255 * (real i / real n) \<le> 255"
    using trail_fraction[OF assms(1)] by simp_all
  have l: "0 \<le> real_of_int life / 100" "real_of_int life / 100 \<le> 1"
    using assms by simp_all
  show "0 \<le> 255 * (real i / real n) * (real_of_int life / 100)"
    using f(1) l(1) by (rule mult_nonneg_nonneg)
  have "255 * (real i / real n) * (real_of_int life / 100) \<le> 255 * 1"
    using f l by (intro mult_mono) simp_all
  then show "255 * (real i / real n) * (real_of_int life / 100) \<le> 255" by simp
qed

lemma enumerate_index: "(i, pos) \<in> set (enumerate 0 xs) \<Longrightarrow> i < length xs"
  by (simp add: in_set_enumerate_eq)

lemma Particle_draw_alpha:
  assumes "0 < p_life p" "p_life p \<le> 100"
  shows "list_all alpha_in_range (Particle_draw p)"
proof -
  have "alpha_in_range (Circle (RGBA (p_color p)
           (py_int (255 * (real i / real (length (p_trail p))) * (real_of_int (p_life p) / 100))))
           (py_int (fst pos), py_int (snd pos)) (max 1 (p_size p div 2)))"
    if "(i, pos) \<in> set (enumerate 0 (p_trail p))" for i pos
    using trail_alpha_range[OF enumerate_index[OF that] assms] by simp
  then show ?thesis
    by (auto simp: Particle_draw_def list_all_iff)
qed

lemma ascent_draw_alpha:
  assumes "\<not> f_exploded fw"
  shows "list_all alpha_in_range (Firework_draw fw)"
proof -
  have "alpha_in_range (Circle (RGBA (f_color fw)
           (py_int (255 * (real i / real (length (f_trail fw))))))
           (py_int (fst pos), py_int (snd pos)) 2)"
    if "(i, pos) \<in> set (enumerate 0 (f_trail fw))" for i pos
    using py_int_range[of "255 * (real i / real (length (f_trail fw)))"]
      trail_fraction[OF enumerate_index[OF that]] by simp
  then show ?thesis
    using assms by (auto simp: Firework_draw_def list_all_iff)
qed

lemma exploded_draw_alpha:
  assumes "f_exploded fw" "list_all particle_ok (f_particles fw)"
  shows "list_all alpha_in_range (Firework_draw fw)"
proof -
  have "list_all alpha_in_range (Particle_draw p)" if "p \<in> set (f_particles fw)" for p
    using that assms(2) by (intro Particle_draw_alpha) (simp_all add: list_all_iff particle_ok_def)
  then show ?thesis
    using assms(1) by (auto simp: Firework_draw_def list_all_iff)
qed

lemma example_particle_twice:
  "p_life (Particle_update (Particle_update example_particle)) = 98"
  "length (p_trail (Particle_update (Particle_update example_particle))) = 2"
  by (simp_all add: Particle_update_def Let_def example_particle_def Particle_init_def
      append_capped_def)

subsection \<open>Bursts\<close>

lemma explode_draws_okD:
  assumes "explode_draws_ok d" "i < nat (randint 30 60 (e_particle_count d))"
  shows "burst_draw_ok (e_iter d i)"
  using assms by (simp add: explode_draws_ok_def list_all_iff)

text \<open>
  What one call of \<^verbatim>\<open>explode\<close> does, as a function of the random numbers it reads. It
  sets \<open>exploded\<close>; the particle count \<open>N\<close> lies in 30..60; for each \<open>i\<close> below \<open>N\<close>, in
  order, it appends a primary Particle at the Firework's position and colour, with
  velocity \<open>speed\<close> times (cos, sin) of the angle \<open>2\<pi>i/N\<close>, a speed in 2..8, an integer
  size in 2..4, life 100 and an empty trail, followed, exactly when the
  \<^verbatim>\<open>random()\<close> of that iteration is below 0.3, by a scatter Particle at the same
  position with an angle in \<open>[0, 2\<pi>)\<close>, a speed in 1..5 and half the primary's size by
  integer division. How the random numbers are distributed is the generator's matter
  and is not part of this statement.
\<close>

lemma explode_structure:
  assumes "explode_draws_ok d"
  shows "30 \<le> randint 30 60 (e_particle_count d) \<and> randint 30 60 (e_particle_count d) \<le> 60
   \<and> f_exploded (explode fw d)
   \<and> f_particles (explode fw d) = f_particles fw @ concat (map
        (\<lambda>i. \<lparr> p_x = f_x fw, p_y = f_y fw, p_color = f_color fw,
                p_size = randint 2 4 (b_size (e_iter d i)),
                p_vx = cos (2 * pi * real i / real_of_int (randint 30 60 (e_particle_count d)))
                         * uniform 2 8 (b_speed (e_iter d i)),
                p_vy = sin (2 * pi * real i / real_of_int (randint 30 60 (e_particle_count d)))
                         * uniform 2 8 (b_speed (e_iter d i)),
                p_gravity = 0.1, p_life = 100,
                p_decay = uniform 0.8 0.99 (b_decay (e_iter d i)), p_trail = [] \<rparr>
              # (if b_coin (e_iter d i) < 0.3
                 then [\<lparr> p_x = f_x fw, p_y = f_y fw, p_color = f_color fw,
                         p_size = randint 2 4 (b_size (e_iter d i)) div 2,
                         p_vx = cos (uniform 0 (2 * pi) (b_random_angle (e_iter d i)))
                                  * uniform 1 5 (b_random_speed (e_iter d i)),
                         p_vy = sin (uniform 0 (2 * pi) (b_random_angle (e_iter d i)))
                                  * uniform 1 5 (b_random_speed (e_iter d i)),
                         p_gravity = 0.1, p_life = 100,
                         p_decay = uniform 0.8 0.99 (b_random_decay (e_iter d i)),
                         p_trail = [] \<rparr>]
                 else []))
        [0..<nat (randint 30 60 (e_particle_count d))])
   \<and> (\<forall>i < nat (randint 30 60 (e_particle_count d)).
        2 \<le> uniform 2 8 (b_speed (e_iter d i)) \<and> uniform 2 8 (b_speed (e_iter d i)) \<le> 8
        \<and> 2 \<le> randint 2 4 (b_size (e_iter d i)) \<and> randint 2 4 (b_size (e_iter d i)) \<le> 4
        \<and> 0 \<le> uniform 0 (2 * pi) (b_random_angle (e_iter d i))
        \<and> uniform 0 (2 * pi) (b_random_angle (e_iter d i)) < 2 * pi
        \<and> 1 \<le> uniform 1 5 (b_random_speed (e_iter d i))
        \<and> uniform 1 5 (b_random_speed (e_iter d i)) \<le> 5)"
proof -
  let ?N = "randint 30 60 (e_particle_count d)"
  have count: "30 \<le> ?N \<and> ?N \<le> 60"
    using assms random_ok_randint[of "e_particle_count d" 30 60]
    by (simp add: explode_draws_ok_def)
  have flag: "f_exploded (explode fw d)" by (simp add: explode_fields)
  have burst: "f_particles (explode fw d) = f_particles fw @ concat (map
            (\<lambda>i. explode_iter fw ?N (e_iter d i) i) [0..<nat ?N])"
    by (simp add: explode_def Let_def explode_loop_eq)
  have ranges: "2 \<le> uniform 2 8 (b_speed (e_iter d i)) \<and> uniform 2 8 (b_speed (e_iter d i)) \<le> 8
        \<and> 2 \<le> randint 2 4 (b_size (e_iter d i)) \<and> randint 2 4 (b_size (e_iter d i)) \<le> 4
        \<and> 0 \<le> uniform 0 (2 * pi) (b_random_angle (e_iter d i))
        \<and> uniform 0 (2 * pi) (b_random_angle (e_iter d i)) < 2 * pi
        \<and> 1 \<le> uniform 1 5 (b_random_speed (e_iter d i))
        \<and> uniform 1 5 (b_random_speed (e_iter d i)) \<le> 5"
    if "i < nat ?N" for i
  proof -
    from explode_draws_okD[OF assms that]
    have ok: "random_ok (b_speed (e_iter d i))" "random_ok (b_size (e_iter d i))"
      "random_ok (b_random_angle (e_iter d i))" "random_ok (b_random_speed (e_iter d i))"
      by (simp_all add: burst_draw_ok_def)
    show ?thesis
      using random_ok_uniform[OF ok(1), of 2 8] random_ok_randint[OF ok(2), of 2 4]
        random_ok_uniform[OF ok(3), of 0 "2 * pi"] random_ok_uniform_less[OF ok(3), of 0 "2 * pi"]
        random_ok_uniform[OF ok(4), of 1 5]
      by simp
  qed
  have iter: "explode_iter fw ?N b i =
      \<lparr> p_x = f_x fw, p_y = f_y fw, p_color = f_color fw,
        p_size = randint 2 4 (b_size b),
        p_vx = cos (2 * pi * real i / real_of_int ?N) * uniform 2 8 (b_speed b),
        p_vy = sin (2 * pi * real i / real_of_int ?N) * uniform 2 8 (b_speed b),
        p_gravity = 0.1, p_life = 100,
        p_decay = uniform 0.8 0.99 (b_decay b), p_trail = [] \<rparr>
      # (if b_coin b < 0.3
         then [\<lparr> p_x = f_x fw, p_y = f_y fw, p_color = f_color fw,
                 p_size = randint 2 4 (b_size b) div 2,
                 p_vx = cos (uniform 0 (2 * pi) (b_random_angle b))
                          * uniform 1 5 (b_random_speed b),
                 p_vy = sin (uniform 0 (2 * pi) (b_random_angle b))
                          * uniform 1 5 (b_random_speed b),
                 p_gravity = 0.1, p_life = 100,
                 p_decay = uniform 0.8 0.99 (b_random_decay b), p_trail = [] \<rparr>]
         else [])" for b i
    by (simp add: explode_iter_def Let_def Particle_init_def)
  note particles = burst[unfolded iter]
  from count flag particles ranges show ?thesis by blast
qed

lemma explode_structure_example:
  "explode_draws_ok example_draws
   \<and> randint 30 60 (e_particle_count example_draws) = 30
   \<and> f_exploded (explode example_firework example_draws)
   \<and> length (f_particles (explode example_firework example_draws)) = 60
   \<and> p_x (hd (f_particles (explode example_firework example_draws))) = 400
   \<and> p_y (hd (f_particles (explode example_firework example_draws))) = 600
   \<and> p_vx (hd (f_particles (explode example_firework example_draws))) = 5
   \<and> p_vy (hd (f_particles (explode example_firework example_draws))) = 0
   \<and> p_size (hd (f_particles (explode example_firework example_draws))) = 3"
proof -
  have n: "randint 30 60 (e_particle_count example_draws) = 30"
    by (simp add: example_draws_def randint_def)
  have ok: "explode_draws_ok example_draws"
    unfolding explode_draws_ok_def n
    by (simp add: example_draws_def example_burst_def burst_draw_ok_def random_ok_def
        list_all_iff)
  have coin: "b_coin (e_iter example_draws i) < 0.3" for i
    by (simp add: example_draws_def example_burst_def)
  have empty: "f_particles example_firework = []"
    by (simp add: example_firework_def Firework_init_def)
  have up: "[0..<30] = 0 # [1..<30]" by (simp add: upt_rec)
  note burst = explode_structure[OF ok, of example_firework, unfolded n]
  have flag: "f_exploded (explode example_firework example_draws)"
    using burst by (elim conjE)
  note eq = burst[THEN conjunct2, THEN conjunct2, THEN conjunct2, THEN conjunct1]
  have len: "length (f_particles (explode example_firework example_draws)) = 60"
    using eq by (simp only: coin if_True) (simp add: empty length_concat comp_def sum_list_triv)
  have first: "p_x (hd (f_particles (explode example_firework example_draws))) = 400
   \<and> p_y (hd (f_particles (explode example_firework example_draws))) = 600
   \<and> p_vx (hd (f_particles (explode example_firework example_draws))) = 5
   \<and> p_vy (hd (f_particles (explode example_firework example_draws))) = 0
   \<and> p_size (hd (f_particles (explode example_firework example_draws))) = 3"
    using eq
    by (simp add: empty up example_firework_def Firework_init_def example_draws_def
        example_burst_def uniform_def randint_def HEIGHT_def)
  from flag len ok n first show ?thesis by simp
qed

subsection \<open>The loops of the main loop\<close>

lemma fireworks_loop_eq:
  "fireworks_loop i ds fws =
     (filter Firework_is_alive (map (\<lambda>(k, fw). Firework_update fw (ds k)) (enumerate i fws)),
      concat (map (\<lambda>(k, fw). Update k # Draw k #
                     (if Firework_is_alive (Firework_update fw (ds k)) then [] else [Remove k]))
                  (enumerate i fws)),
      concat (map (\<lambda>(k, fw). Firework_draw (Firework_update fw (ds k))) (enumerate i fws)))"
  by (induction fws arbitrary: i) (simp_all add: Let_def)

lemma same_life_update_particles:
  assumes "list_all (\<lambda>p. p_life p = l) ps"
  shows "list_all (\<lambda>p. p_life p = l - 1) (update_particles ps)
       \<and> (l \<le> 1 \<longrightarrow> update_particles ps = [])"
  using assms
  by (induction ps) (simp_all add: Let_def Particle_is_alive_def Particle_update_def)

lemma same_life_explode:
  assumes "f_particles fw = []"
  shows "list_all (\<lambda>p. p_life p = 100) (f_particles (explode fw d))"
proof -
  have "list_all (\<lambda>p. p_life p = 100) (concat (map (\<lambda>i. explode_iter fw n (ds i) i) idxs))"
    for n ds idxs
    by (induction idxs) (simp_all add: explode_iter_def Let_def Particle_init_def)
  then show ?thesis using assms by (simp add: explode_def Let_def explode_loop_eq)
qed

lemma bottom_firework_first_update:
  "Firework_update bottom_firework d =
     explode (bottom_firework\<lparr> f_trail := [(400, 600)], f_vy := - 167 / 10, f_y := 5833 / 10 \<rparr>) d"
  by (simp add: Firework_update_def Let_def bottom_firework_def Firework_init_def uniform_def
      HEIGHT_def append_capped_def)

lemma bottom_firework_burning:
  "f_exploded (updates (Suc k) ds bottom_firework)
   \<and> list_all (\<lambda>p. p_life p = 100 - int k) (f_particles (updates (Suc k) ds bottom_firework))"
proof (induction k)
  case 0
  have "f_particles (bottom_firework\<lparr> f_trail := [(400, 600)], f_vy := - 167 / 10,
                                      f_y := 5833 / 10 \<rparr>) = []"
    by (simp add: bottom_firework_def Firework_init_def)
  from same_life_explode[OF this] show ?case
    by (simp add: bottom_firework_first_update explode_fields)
next
  case (Suc k)
  then have ex: "f_exploded (updates (Suc k) ds bottom_firework)"
    and l: "list_all (\<lambda>p. p_life p = 100 - int k) (f_particles (updates (Suc k) ds bottom_firework))"
    by simp_all
  have "updates (Suc (Suc k)) ds bottom_firework
      = (updates (Suc k) ds bottom_firework)
          \<lparr> f_particles := update_particles (f_particles (updates (Suc k) ds bottom_firework)) \<rparr>"
    using ex Firework_update_exploded[of "updates (Suc k) ds bottom_firework" "ds (Suc k)"]
    by simp
  moreover have "list_all (\<lambda>p. p_life p = 100 - int k - 1)
      (update_particles (f_particles (updates (Suc k) ds bottom_firework)))"
    using same_life_update_particles[OF l] by simp
  ultimately show ?case using ex by (simp add: algebra_simps)
qed

lemma dying_firework_dies:
  "f_exploded dying_firework"
  "\<not> Firework_is_alive (Firework_update dying_firework d)"
  "Firework_draw (Firework_update dying_firework d) = []"
proof -
  have "100 = Suc 99" by simp
  then have d: "dying_firework = updates (Suc 99) (\<lambda>_. example_draws) bottom_firework"
    by (simp only: dying_firework_def)
  from bottom_firework_burning[of 99 "\<lambda>_. example_draws"]
  have ex: "f_exploded dying_firework"
    and l: "list_all (\<lambda>p. p_life p = 1) (f_particles dying_firework)"
    unfolding d by simp_all
  from same_life_update_particles[OF l]
  have none: "update_particles (f_particles dying_firework) = []" by simp
  show "f_exploded dying_firework" by (rule ex)
  show "\<not> Firework_is_alive (Firework_update dying_firework d)"
    using ex none by (simp add: Firework_update_exploded Firework_is_alive_def)
  show "Firework_draw (Firework_update dying_firework d) = []"
    using ex none by (simp add: Firework_update_exploded Firework_draw_def)
qed

lemma example_firework_first_update:
  "\<not> f_exploded (Firework_update example_firework d)"
  "Firework_is_alive (Firework_update example_firework d)"
  by (simp_all add: Firework_update_def Let_def example_firework_def Firework_init_def
      uniform_def HEIGHT_def Firework_is_alive_def)


section \<open>The claims\<close>

text \<open>
  C5. Let \<open>p\<close> be a Particle after any number \<open>k\<close> of updates since its construction.
  The next \<^verbatim>\<open>update()\<close> appends the current position to the trail, dropping the oldest
  entry once the trail holds 10, so that the trail never exceeds 10 entries; it scales
  \<open>vx\<close> and \<open>vy\<close> by the decay factor and then adds the gravity constant 0.1 to \<open>vy\<close>; it
  adds the new \<open>vx\<close> and \<open>vy\<close> to the position; it decrements \<open>life\<close> by exactly 1 (so
  \<open>life\<close> is \<open>100 - k\<close>); and a Particle whose \<open>life\<close> is \<open>\<le> 0\<close> is not alive.
\<close>

theorem Particle_update_spec:
  assumes "p = (Particle_update ^^ k) (Particle_init x y color speed angle sz decay_draw)"
  shows "p_trail (Particle_update p)
           = (if length (p_trail p) < 10 then p_trail p else tl (p_trail p)) @ [(p_x p, p_y p)]
       \<and> length (p_trail (Particle_update p)) \<le> 10
       \<and> p_vx (Particle_update p) = p_vx p * p_decay p
       \<and> p_vy (Particle_update p) = p_vy p * p_decay p + 0.1
       \<and> p_x (Particle_update p) = p_x p + p_vx (Particle_update p)
       \<and> p_y (Particle_update p) = p_y p + p_vy (Particle_update p)
       \<and> p_life (Particle_update p) = p_life p - 1
       \<and> p_life p = 100 - int k
       \<and> (p_life p \<le> 0 \<longrightarrow> \<not> Particle_is_alive p)"
proof -
  from Particle_updates_inv[OF assms]
  have g: "p_gravity p = 0.1" and l: "p_life p = 100 - int k" and t: "length (p_trail p) \<le> 10"
    by simp_all
  have tr: "p_trail (Particle_update p)
           = (if length (p_trail p) < 10 then p_trail p else tl (p_trail p)) @ [(p_x p, p_y p)]"
    by (simp add: Particle_update_def Let_def append_capped_eq)
  have len: "length (p_trail (Particle_update p)) \<le> 10"
    using t by (simp add: Particle_update_def Let_def length_append_capped)
  have rest: "p_vx (Particle_update p) = p_vx p * p_decay p"
    "p_vy (Particle_update p) = p_vy p * p_decay p + 0.1"
    "p_x (Particle_update p) = p_x p + p_vx (Particle_update p)"
    "p_y (Particle_update p) = p_y p + p_vy (Particle_update p)"
    "p_life (Particle_update p) = p_life p - 1"
    using g by (simp_all add: Particle_update_def Let_def)
  have dead: "p_life p \<le> 0 \<longrightarrow> \<not> Particle_is_alive p"
    by (simp add: Particle_is_alive_def)
  show ?thesis using tr len rest l dead by blast
qed

theorem Particle_update_spec_witness:
  "p_life ((Particle_update ^^ 100) example_particle) = 0
   \<and> \<not> Particle_is_alive ((Particle_update ^^ 100) example_particle)
   \<and> p_life (Particle_update ((Particle_update ^^ 100) example_particle)) = - 1
   \<and> length (p_trail (Particle_update ((Particle_update ^^ 100) example_particle))) \<le> 10"
proof -
  note spec = Particle_update_spec[OF refl, where k = 100 and x = 400 and y = 300
      and color = "(255, 0, 0)" and speed = 5 and angle = 0 and sz = 3 and decay_draw = "1/2",
      folded example_particle_def]
  from spec have life: "p_life ((Particle_update ^^ 100) example_particle) = 100 - int 100"
    by (elim conjE)
  from spec have dead: "p_life ((Particle_update ^^ 100) example_particle) \<le> 0
      \<longrightarrow> \<not> Particle_is_alive ((Particle_update ^^ 100) example_particle)"
    by (elim conjE)
  from spec have next_life: "p_life (Particle_update ((Particle_update ^^ 100) example_particle))
      = p_life ((Particle_update ^^ 100) example_particle) - 1"
    by (elim conjE)
  from spec have len:
    "length (p_trail (Particle_update ((Particle_update ^^ 100) example_particle))) \<le> 10"
    by (elim conjE)
  from life dead next_life len show ?thesis by simp
qed

text \<open>
  C3. For a Firework that has not exploded, \<^verbatim>\<open>update()\<close> appends (x, y) to the ascent
  trail, dropping the oldest entry once the trail holds 20 (so a trail of at most 20
  entries stays so), adds 0.3 to \<open>vy\<close>, adds the new \<open>vy\<close> to \<open>y\<close>, and explodes exactly
  when afterwards \<open>vy \<ge> 0\<close> or \<open>y \<le> target_y\<close>. Over any sequence of updates there is
  exactly one update that takes the Firework from ascending to exploded, and an
  exploded Firework stays exploded.
\<close>

theorem Firework_ascending_update:
  assumes "\<not> f_exploded fw"
  shows "f_trail (Firework_update fw d)
           = (if length (f_trail fw) < 20 then f_trail fw else tl (f_trail fw)) @ [(f_x fw, f_y fw)]
       \<and> (length (f_trail fw) \<le> 20 \<longrightarrow> length (f_trail (Firework_update fw d)) \<le> 20)
       \<and> f_vy (Firework_update fw d) = f_vy fw + 0.3
       \<and> f_y (Firework_update fw d) = f_y fw + f_vy (Firework_update fw d)
       \<and> (f_exploded (Firework_update fw d) \<longleftrightarrow>
            f_vy (Firework_update fw d) \<ge> 0 \<or> f_y (Firework_update fw d) \<le> f_target_y fw)
       \<and> (\<exists>!n. \<not> f_exploded (updates n ds fw) \<and> f_exploded (updates (Suc n) ds fw))
       \<and> (\<forall>n m. f_exploded (updates n ds fw) \<longrightarrow> f_exploded (updates (n + m) ds fw))"
proof -
  note asc = Firework_update_ascending[OF assms, of d]
  have tr: "f_trail (Firework_update fw d)
           = (if length (f_trail fw) < 20 then f_trail fw else tl (f_trail fw)) @ [(f_x fw, f_y fw)]"
    using asc(1) by (simp add: append_capped_eq)
  have len: "length (f_trail fw) \<le> 20 \<longrightarrow> length (f_trail (Firework_update fw d)) \<le> 20"
    using asc(1) by (simp add: length_append_capped)
  have phys: "f_vy (Firework_update fw d) = f_vy fw + 0.3"
    "f_y (Firework_update fw d) = f_y fw + f_vy (Firework_update fw d)"
    using asc by simp_all
  have trig: "f_exploded (Firework_update fw d) \<longleftrightarrow>
            f_vy (Firework_update fw d) \<ge> 0 \<or> f_y (Firework_update fw d) \<le> f_target_y fw"
    using asc by simp
  have once: "\<exists>!n. \<not> f_exploded (updates n ds fw) \<and> f_exploded (updates (Suc n) ds fw)"
    using assms by (rule exactly_one_transition)
  have mono: "\<forall>n m. f_exploded (updates n ds fw) \<longrightarrow> f_exploded (updates (n + m) ds fw)"
    using updates_exploded_mono by blast
  show ?thesis using tr len phys trig once mono by blast
qed

theorem Firework_ascending_update_witness:
  "\<not> f_exploded example_firework
   \<and> f_vy (Firework_update example_firework example_draws) = - 167 / 10
   \<and> f_y (Firework_update example_firework example_draws) = 5833 / 10
   \<and> f_trail (Firework_update example_firework example_draws) = [(400, 600)]
   \<and> \<not> f_exploded (Firework_update example_firework example_draws)"
proof -
  have asc: "\<not> f_exploded example_firework"
    by (simp add: example_firework_def Firework_init_def)
  show ?thesis
    using asc Firework_ascending_update[OF asc, of example_draws "\<lambda>_. example_draws"]
    by (simp add: example_firework_def Firework_init_def uniform_def HEIGHT_def)
qed

text \<open>
  C7. Let \<open>fw\<close> be a Firework after any number of updates since its construction. While
  \<open>exploded\<close> is false its \<open>particles\<close> collection is empty; once \<open>exploded\<close> is true, no
  sequence of further updates changes x, y, vy or the ascent trail, and \<open>exploded\<close> stays
  true.
\<close>

theorem Firework_phase_invariant:
  assumes "fw = updates n ds (Firework_init x target_y color u)"
  shows "(\<not> f_exploded fw \<longrightarrow> f_particles fw = [])
       \<and> (f_exploded fw \<longrightarrow>
            (\<forall>m ds'. f_exploded (updates m ds' fw) \<and> f_x (updates m ds' fw) = f_x fw
                   \<and> f_y (updates m ds' fw) = f_y fw \<and> f_vy (updates m ds' fw) = f_vy fw
                   \<and> f_trail (updates m ds' fw) = f_trail fw))"
proof -
  have "firework_inv fw" using assms by (simp add: firework_inv_updates)
  then have empty: "\<not> f_exploded fw \<longrightarrow> f_particles fw = []"
    by (simp add: firework_inv_def)
  moreover have "f_exploded fw \<longrightarrow>
            (\<forall>m ds'. f_exploded (updates m ds' fw) \<and> f_x (updates m ds' fw) = f_x fw
                   \<and> f_y (updates m ds' fw) = f_y fw \<and> f_vy (updates m ds' fw) = f_vy fw
                   \<and> f_trail (updates m ds' fw) = f_trail fw)"
    using updates_exploded_frozen by blast
  ultimately show ?thesis by blast
qed

theorem Firework_phase_invariant_witness:
  "f_particles example_firework = []
   \<and> f_exploded (updates 1 (\<lambda>_. example_draws) bottom_firework)
   \<and> f_exploded (updates 3 (\<lambda>_. example_draws) (updates 1 (\<lambda>_. example_draws) bottom_firework))
   \<and> f_y (updates 3 (\<lambda>_. example_draws) (updates 1 (\<lambda>_. example_draws) bottom_firework))
       = f_y (updates 1 (\<lambda>_. example_draws) bottom_firework)
   \<and> f_trail (updates 3 (\<lambda>_. example_draws) (updates 1 (\<lambda>_. example_draws) bottom_firework))
       = f_trail (updates 1 (\<lambda>_. example_draws) bottom_firework)"
proof -
  have asc: "\<not> f_exploded (updates 0 (\<lambda>_. example_draws) (Firework_init 400 300 (255, 0, 0) (2/5)))"
    by (simp add: Firework_init_def)
  have empty: "f_particles example_firework = []"
    using asc Firework_phase_invariant[OF refl, where n = 0 and ds = "\<lambda>_. example_draws"
        and x = 400 and target_y = 300 and color = "(255, 0, 0)" and u = "2/5"]
    by (simp add: example_firework_def)
  have ex: "f_exploded (updates 1 (\<lambda>_. example_draws) bottom_firework)"
    by (simp add: bottom_firework_def Firework_init_def Firework_update_ascending
        uniform_def HEIGHT_def)
  from ex Firework_phase_invariant[OF refl, where n = 1 and ds = "\<lambda>_. example_draws"
        and x = 400 and target_y = 590 and color = "(255, 0, 0)" and u = "2/5",
        folded bottom_firework_def]
  have "\<forall>m ds'. f_exploded (updates m ds' (updates 1 (\<lambda>_. example_draws) bottom_firework))
       \<and> f_x (updates m ds' (updates 1 (\<lambda>_. example_draws) bottom_firework))
           = f_x (updates 1 (\<lambda>_. example_draws) bottom_firework)
       \<and> f_y (updates m ds' (updates 1 (\<lambda>_. example_draws) bottom_firework))
           = f_y (updates 1 (\<lambda>_. example_draws) bottom_firework)
       \<and> f_vy (updates m ds' (updates 1 (\<lambda>_. example_draws) bottom_firework))
           = f_vy (updates 1 (\<lambda>_. example_draws) bottom_firework)
       \<and> f_trail (updates m ds' (updates 1 (\<lambda>_. example_draws) bottom_firework))
           = f_trail (updates 1 (\<lambda>_. example_draws) bottom_firework)"
    by blast
  then have "f_exploded (updates 3 (\<lambda>_. example_draws) (updates 1 (\<lambda>_. example_draws) bottom_firework))
       \<and> f_y (updates 3 (\<lambda>_. example_draws) (updates 1 (\<lambda>_. example_draws) bottom_firework))
           = f_y (updates 1 (\<lambda>_. example_draws) bottom_firework)
       \<and> f_trail (updates 3 (\<lambda>_. example_draws) (updates 1 (\<lambda>_. example_draws) bottom_firework))
           = f_trail (updates 1 (\<lambda>_. example_draws) bottom_firework)"
    by blast
  with empty ex show ?thesis by blast
qed

text \<open>
  C10. The constructor sets y to the viewport height and vx to 0 whatever the requested
  y-coordinate is, and keeps that coordinate as \<open>target_y\<close> only. Hence the Firework that
  a mouse click appends, when the click's y-coordinate is at least the viewport height
  minus 14.7, has an initial vy within -20..-15 and is exploded after its first
  \<^verbatim>\<open>update()\<close>.
\<close>

theorem click_near_bottom_explodes_at_once:
  "f_y (Firework_init x target_y color u) = real_of_int HEIGHT
   \<and> f_vx (Firework_init x target_y color u) = 0
   \<and> f_target_y (Firework_init x target_y color u) = target_y
   \<and> (random_ok (m_speed c) \<and> real_of_int (snd (m_pos c)) \<ge> real_of_int HEIGHT - 14.7 \<longrightarrow>
        (\<exists>fw. handle_event (running, fireworks) MOUSEBUTTONDOWN c = (running, fireworks @ [fw])
            \<and> f_y fw = real_of_int HEIGHT \<and> f_vx fw = 0
            \<and> f_target_y fw = real_of_int (snd (m_pos c))
            \<and> - 20 \<le> f_vy fw \<and> f_vy fw \<le> - 15
            \<and> f_y (Firework_update fw d) \<le> f_target_y fw
            \<and> f_exploded (Firework_update fw d)))"
proof -
  have init: "f_y (Firework_init x target_y color u) = real_of_int HEIGHT
      \<and> f_vx (Firework_init x target_y color u) = 0
      \<and> f_target_y (Firework_init x target_y color u) = target_y"
    by (simp add: Firework_init_def)
  have click: "\<exists>fw. handle_event (running, fireworks) MOUSEBUTTONDOWN c = (running, fireworks @ [fw])
            \<and> f_y fw = real_of_int HEIGHT \<and> f_vx fw = 0
            \<and> f_target_y fw = real_of_int (snd (m_pos c))
            \<and> - 20 \<le> f_vy fw \<and> f_vy fw \<le> - 15
            \<and> f_y (Firework_update fw d) \<le> f_target_y fw
            \<and> f_exploded (Firework_update fw d)"
    if ok: "random_ok (m_speed c)"
      and near: "real_of_int (snd (m_pos c)) \<ge> real_of_int HEIGHT - 14.7"
  proof -
    define fw where "fw = Firework_init (real_of_int (fst (m_pos c))) (real_of_int (snd (m_pos c)))
                            (choice COLORS (m_color c)) (m_speed c)"
    have ev: "handle_event (running, fireworks) MOUSEBUTTONDOWN c = (running, fireworks @ [fw])"
      by (simp add: handle_event_def fw_def Let_def split: prod.splits)
    have sp: "15 \<le> uniform 15 20 (m_speed c) \<and> uniform 15 20 (m_speed c) \<le> 20"
      using random_ok_uniform[OF ok, of 15 20] by simp
    have f: "f_y fw = real_of_int HEIGHT" "f_vx fw = 0"
      "f_target_y fw = real_of_int (snd (m_pos c))" "f_vy fw = - uniform 15 20 (m_speed c)"
      "\<not> f_exploded fw"
      by (simp_all add: fw_def Firework_init_def)
    have vy: "- 20 \<le> f_vy fw" "f_vy fw \<le> - 15" using sp f(4) by simp_all
    have y': "f_y (Firework_update fw d) = f_y fw + (f_vy fw + 0.3)"
      using f(5) by (simp add: Firework_update_ascending)
    have le: "f_y (Firework_update fw d) \<le> f_target_y fw"
      using y' vy near f(1,3) by simp
    have "f_exploded (Firework_update fw d)"
      using le y' f(5) by (simp add: Firework_update_ascending)
    with ev f vy le show ?thesis by blast
  qed
  from init click show ?thesis by blast
qed

theorem click_near_bottom_explodes_at_once_witness:
  "random_ok (m_speed bottom_click)
   \<and> real_of_int (snd (m_pos bottom_click)) \<ge> real_of_int HEIGHT - 14.7
   \<and> handle_event (True, []) MOUSEBUTTONDOWN bottom_click = (True, [bottom_firework])
   \<and> f_exploded (Firework_update bottom_firework example_draws)"
proof -
  have h: "random_ok (m_speed bottom_click)
      \<and> real_of_int (snd (m_pos bottom_click)) \<ge> real_of_int HEIGHT - 14.7"
    by (simp add: bottom_click_def random_ok_def HEIGHT_def)
  have ev: "handle_event (True, []) MOUSEBUTTONDOWN bottom_click = (True, [bottom_firework])"
    by (simp add: handle_event_def bottom_click_def bottom_firework_def choice_def COLORS_def)
  from h click_near_bottom_explodes_at_once[of 0 0 "(0, 0, 0)" 0 bottom_click True "[]" example_draws]
  obtain fw where "handle_event (True, []) MOUSEBUTTONDOWN bottom_click = (True, [] @ [fw])"
    and "f_exploded (Firework_update fw example_draws)" by blast
  with ev h show ?thesis by simp
qed

text \<open>
  C6. Every alpha value handed to a drawing call lies within 0..255: for a Particle
  with \<open>0 < life \<le> 100\<close> and a trail of at most 10 positions, the alpha of every circle
  that \<^verbatim>\<open>Particle.draw\<close> draws (trail and body); for a Firework that has not exploded,
  the alpha of every circle of its ascent trail; and, for a Firework after any number
  of updates since its construction, the alpha of every circle that
  \<^verbatim>\<open>Firework.draw\<close> draws.
\<close>

theorem draw_alpha_in_range:
  "(0 < p_life p \<and> p_life p \<le> 100 \<and> length (p_trail p) \<le> 10 \<longrightarrow>
      list_all alpha_in_range (Particle_draw p))
   \<and> (\<not> f_exploded fw \<longrightarrow> list_all alpha_in_range (Firework_draw fw))
   \<and> list_all alpha_in_range (Firework_draw (updates n ds (Firework_init x target_y color u)))"
proof -
  let ?fw = "updates n ds (Firework_init x target_y color u)"
  have "firework_inv ?fw" by (rule firework_inv_updates)
  then have "list_all alpha_in_range (Firework_draw ?fw)"
    by (cases "f_exploded ?fw") (simp_all add: firework_inv_def exploded_draw_alpha ascent_draw_alpha)
  then show ?thesis
    using Particle_draw_alpha ascent_draw_alpha by blast
qed

theorem draw_alpha_in_range_witness:
  "0 < p_life (Particle_update (Particle_update example_particle))
   \<and> p_life (Particle_update (Particle_update example_particle)) \<le> 100
   \<and> length (p_trail (Particle_update (Particle_update example_particle))) \<le> 10
   \<and> list_all alpha_in_range (Particle_draw (Particle_update (Particle_update example_particle)))
   \<and> map call_alpha (Particle_draw (Particle_update (Particle_update example_particle)))
       = [Some 0, Some 124, Some 196]
   \<and> \<not> f_exploded example_firework
   \<and> list_all alpha_in_range (Firework_draw example_firework)"
proof -
  have p: "0 < p_life (Particle_update (Particle_update example_particle))
      \<and> p_life (Particle_update (Particle_update example_particle)) \<le> 100
      \<and> length (p_trail (Particle_update (Particle_update example_particle))) \<le> 10"
    by (simp add: example_particle_twice)
  have f: "\<not> f_exploded example_firework"
    by (simp add: example_firework_def Firework_init_def)
  have v: "map call_alpha (Particle_draw (Particle_update (Particle_update example_particle)))
       = [Some 0, Some 124, Some 196]"
    by (simp add: Particle_draw_def Particle_update_def Let_def example_particle_def
        Particle_init_def append_capped_def py_int_def)
  from p f v
    draw_alpha_in_range[of "Particle_update (Particle_update example_particle)" example_firework
      0 "\<lambda>_. example_draws" 0 0 "(0, 0, 0)" 0]
  show ?thesis by blast
qed

text \<open>
  C2, as stated, fails: the calls of a frame do not come as every update, then every
  draw, then every removal. For a Firework whose last particles expire in this frame,
  followed in the collection by an ascending one, the first is drawn and removed before
  the second is updated.
\<close>

theorem all_updates_before_all_draws_counterexample:
  "fst (snd (fireworks_loop 0 (\<lambda>_. example_draws) [dying_firework, example_firework]))
     = [Update 0, Draw 0, Remove 0, Update 1, Draw 1]
   \<and> \<not> phase_ordered
         (fst (snd (fireworks_loop 0 (\<lambda>_. example_draws) [dying_firework, example_firework])))"
proof -
  have calls: "fst (snd (fireworks_loop 0 (\<lambda>_. example_draws) [dying_firework, example_firework]))
     = [Update 0, Draw 0, Remove 0, Update 1, Draw 1]"
    by (simp add: Let_def dying_firework_dies example_firework_first_update)
  have "\<not> phase_ordered [Update 0, Draw 0, Remove 0, Update 1, Draw 1]"
    by (simp add: phase_ordered_def)
  with calls show ?thesis by simp
qed

text \<open>
  C2, as the code has it. Within a frame the loop over the snapshot of the collection
  handles the Fireworks one at a time, in collection order: the Firework at index \<open>k\<close>
  is updated, then drawn in its updated state, then removed if it is no longer alive,
  and only then is the next Firework handled. The collection afterwards holds the
  updated Fireworks that are alive. So a Firework that dies during a frame is still
  drawn once, in its final state, before its removal.
\<close>

theorem fireworks_loop_order:
  "fireworks_loop 0 ds fireworks =
     (filter Firework_is_alive
        (map (\<lambda>(k, fw). Firework_update fw (ds k)) (enumerate 0 fireworks)),
      concat (map (\<lambda>(k, fw). Update k # Draw k #
                     (if Firework_is_alive (Firework_update fw (ds k)) then [] else [Remove k]))
                  (enumerate 0 fireworks)),
      concat (map (\<lambda>(k, fw). Firework_draw (Firework_update fw (ds k)))
                  (enumerate 0 fireworks)))"
  by (rule fireworks_loop_eq)

theorem fireworks_loop_order_witness:
  "fireworks_loop 0 (\<lambda>_. example_draws) [dying_firework, example_firework] =
     ([Firework_update example_firework example_draws],
      [Update 0, Draw 0, Remove 0, Update 1, Draw 1],
      Firework_draw (Firework_update example_firework example_draws))"
  using fireworks_loop_order[of "\<lambda>_. example_draws" "[dying_firework, example_firework]"]
  by (simp add: dying_firework_dies example_firework_first_update)

text \<open>
  C8, as stated, fails: a click reported at (1000, 700), outside the 800 x 600 viewport,
  appends a Firework whose x is 1000 and whose target altitude is 700, not the clamped
  values.
\<close>

theorem spawn_not_clamped_counterexample:
  "handle_event (True, []) MOUSEBUTTONDOWN outside_click
     = (True, [Firework_init 1000 700 (255, 0, 0) (2/5)])
   \<and> f_x (Firework_init 1000 700 (255, 0, 0) (2/5)) \<noteq> clamp 0 (real_of_int WIDTH) 1000
   \<and> f_target_y (Firework_init 1000 700 (255, 0, 0) (2/5)) \<noteq> clamp 0 (real_of_int HEIGHT) 700
   \<and> f_x (Firework_init 1000 700 (255, 0, 0) (2/5)) > real_of_int WIDTH
   \<and> f_target_y (Firework_init 1000 700 (255, 0, 0) (2/5)) > real_of_int HEIGHT"
  by (simp add: handle_event_def outside_click_def choice_def COLORS_def Firework_init_def
      clamp_def WIDTH_def HEIGHT_def)

text \<open>
  C8, as the code has it. No spawn request is rejected, whatever its coordinates: the
  handler of a mouse click appends one ascending Firework whose x and target altitude
  are the reported coordinates themselves, unclamped.
\<close>

theorem spawn_keeps_coordinates:
  "\<exists>fw. handle_event (running, fireworks) MOUSEBUTTONDOWN c = (running, fireworks @ [fw])
      \<and> f_x fw = real_of_int (fst (m_pos c))
      \<and> f_target_y fw = real_of_int (snd (m_pos c))
      \<and> \<not> f_exploded fw"
  by (simp add: handle_event_def Let_def Firework_init_def split: prod.splits)




text \<open>
  C1. The clearing step of a frame begins with an opaque fill of the screen, so its
  result does not depend on what the screen showed: every pixel ends as black (alpha 20)
  blended over black, and a screen with a red trail pixel comes out the same as a black
  one. Nothing drawn in earlier frames persists on the surface.
\<close>

theorem opaque_clear_erases_trails:
  "s_pixels (fst (clear_screen blend red_dot_screen trail_surface_init))
     = s_pixels (fst (clear_screen blend black_screen trail_surface_init))
   \<and> s_pixels (fst (clear_screen blend screen trail_surface_init)) p = blend BLACK 20 BLACK"
  by (simp add: clear_screen_def Let_def fill_def blit_def trail_surface_init_def set_alpha_def
      Surface_new_def)

end
